theory Spec2Isabelle
  imports Complex_Main
begin

section \<open>Values decoded from the configuration file\<close>

text \<open>
  \<^verbatim>\<open>validateMaintenanceConfig(data: unknown)\<close> receives what \<^verbatim>\<open>JSON.parse\<close> returned.
  A decoded value is \<^verbatim>\<open>null\<close>, a boolean, a number, a string, an array or an object; an
  object is kept as the list of its key/value pairs, each key once. A property read
  \<^verbatim>\<open>config.k\<close> gives \<^verbatim>\<open>undefined\<close> when the object has no key \<open>k\<close>, which is
  \<open>None\<close> here; none of the four names the code reads is a property of an array.
\<close>

datatype jsval =
    JNull
  | JBool bool
  | JNum real
  | JStr string
  | JArr "jsval list"
  | JObj "(string \<times> jsval) list"

fun typeof :: "jsval \<Rightarrow> string" where
  "typeof JNull = ''object''"
| "typeof (JBool b) = ''boolean''"
| "typeof (JNum x) = ''number''"
| "typeof (JStr s) = ''string''"
| "typeof (JArr xs) = ''object''"
| "typeof (JObj kvs) = ''object''"

text \<open>\<^verbatim>\<open>!data\<close>: the falsy values among the decoded ones.\<close>

fun falsy :: "jsval \<Rightarrow> bool" where
  "falsy JNull = True"
| "falsy (JBool b) = (\<not> b)"
| "falsy (JNum x) = (x = 0)"
| "falsy (JStr s) = (s = [])"
| "falsy (JArr xs) = False"
| "falsy (JObj kvs) = False"

fun get_prop :: "jsval \<Rightarrow> string \<Rightarrow> jsval option" where
  "get_prop (JObj kvs) k = map_of kvs k"
| "get_prop v k = None"

text \<open>\<^verbatim>\<open>typeof config.k\<close>, with \<^verbatim>\<open>"undefined"\<close> for a missing key.\<close>

definition typeof_prop :: "jsval \<Rightarrow> string \<Rightarrow> string" where
  "typeof_prop v k = (case get_prop v k of None \<Rightarrow> ''undefined'' | Some x \<Rightarrow> typeof x)"

section \<open>The configuration validator\<close>

text \<open>
  \<^verbatim>\<open>
  export function validateMaintenanceConfig(data) {
      if (!data || typeof data !== "object") { return false; }
      const config = data;
      if (typeof config.enabled !== "boolean") { return false; }
      if (config.startTime !== undefined && typeof config.startTime !== "string") { return false; }
      if (config.endTime !== undefined && typeof config.endTime !== "string") { return false; }
      if (config.message !== undefined && typeof config.message !== "string") { return false; }
      return true;
  }
  \<close>
\<close>

definition validateMaintenanceConfig :: "jsval \<Rightarrow> bool" where
  "validateMaintenanceConfig data =
     (if falsy data \<or> typeof data \<noteq> ''object'' then False
      else if typeof_prop data ''enabled'' \<noteq> ''boolean'' then False
      else if get_prop data ''startTime'' \<noteq> None \<and> typeof_prop data ''startTime'' \<noteq> ''string'' then False
      else if get_prop data ''endTime'' \<noteq> None \<and> typeof_prop data ''endTime'' \<noteq> ''string'' then False
      else if get_prop data ''message'' \<noteq> None \<and> typeof_prop data ''message'' \<noteq> ''string'' then False
      else True)"

text \<open>
  The specification's description of the validator, to compare with the code: it rejects
  a value that is null, not an object/record, missing the \<open>enabled\<close> key, or whose
  \<open>enabled\<close> is not a boolean, and a value whose \<open>startTime\<close>, \<open>endTime\<close> or
  \<open>message\<close> is present but not a string; it accepts every other value.
\<close>

definition is_record :: "jsval \<Rightarrow> bool" where
  "is_record v = (case v of JObj kvs \<Rightarrow> True | _ \<Rightarrow> False)"

definition is_boolean :: "jsval \<Rightarrow> bool" where
  "is_boolean v = (case v of JBool b \<Rightarrow> True | _ \<Rightarrow> False)"

definition is_string :: "jsval \<Rightarrow> bool" where
  "is_string v = (case v of JStr s \<Rightarrow> True | _ \<Rightarrow> False)"

definition present_not_string :: "jsval \<Rightarrow> string \<Rightarrow> bool" where
  "present_not_string v k = (case get_prop v k of None \<Rightarrow> False | Some x \<Rightarrow> \<not> is_string x)"

definition spec_rejects :: "jsval \<Rightarrow> bool" where
  "spec_rejects v =
     (v = JNull \<or> \<not> is_record v
      \<or> (case get_prop v ''enabled'' of None \<Rightarrow> True | Some x \<Rightarrow> \<not> is_boolean x)
      \<or> present_not_string v ''startTime''
      \<or> present_not_string v ''endTime''
      \<or> present_not_string v ''message'')"

section \<open>The typed configuration and the status record\<close>

text \<open>
  \<^verbatim>\<open>
  export type MaintenanceConfig = {
      enabled: boolean; startTime?: string; endTime?: string; message?: string; };
  export type MaintenanceStatus = {
      active: boolean; config: MaintenanceConfig | null; reason?: string; };
  export type MaintenanceOptions = { configPath?: string; silent?: boolean; };
  \<close>
  An optional field that is missing (\<^verbatim>\<open>undefined\<close>) is \<open>None\<close>.
\<close>

record MaintenanceConfig =
  enabled :: bool
  startTime :: "string option"
  endTime :: "string option"
  message :: "string option"

record MaintenanceStatus =
  active :: bool
  config :: "MaintenanceConfig option"
  reason :: "string option"

record MaintenanceOptions =
  configPath :: "string option"
  silent :: "bool option"

text \<open>
  The validator is a type guard (\<^verbatim>\<open>data is MaintenanceConfig\<close>): after it has accepted
  a value, the callers read the four fields at their declared types. \<open>asConfig\<close> is that
  view of a decoded value; \<open>configJson\<close> is the decoded form of a typed configuration.
\<close>

definition str_prop :: "jsval \<Rightarrow> string \<Rightarrow> string option" where
  "str_prop v k = (case get_prop v k of Some (JStr s) \<Rightarrow> Some s | _ \<Rightarrow> None)"

definition asConfig :: "jsval \<Rightarrow> MaintenanceConfig" where
  "asConfig data =
     \<lparr>enabled = (get_prop data ''enabled'' = Some (JBool True)),
      startTime = str_prop data ''startTime'',
      endTime = str_prop data ''endTime'',
      message = str_prop data ''message''\<rparr>"

definition opt_field :: "string \<Rightarrow> string option \<Rightarrow> (string \<times> jsval) list" where
  "opt_field k v = (case v of None \<Rightarrow> [] | Some s \<Rightarrow> [(k, JStr s)])"

definition configJson :: "MaintenanceConfig \<Rightarrow> jsval" where
  "configJson c =
     JObj ((''enabled'', JBool (enabled c)) # opt_field ''startTime'' (startTime c)
           @ opt_field ''endTime'' (endTime c) @ opt_field ''message'' (message c))"

section \<open>Dates and the clock\<close>

text \<open>
  \<^verbatim>\<open>new Date(s).getTime()\<close> is the engine's: the milliseconds since the epoch, or
  \<^verbatim>\<open>NaN\<close> for a string that is not a date. It is a parameter of every function that
  builds a date from a string, with \<open>None\<close> for \<^verbatim>\<open>NaN\<close>. A reading of the clock
  (\<^verbatim>\<open>new Date()\<close>) is a parameter too, in milliseconds. Times are integers: a valid
  date holds an integral number of milliseconds of magnitude at most 8.64e15, on which
  the subtraction, the division by 1000 followed by \<^verbatim>\<open>Math.floor\<close>, and \<^verbatim>\<open>%\<close> are
  exact in double precision.

  \<^verbatim>\<open>console.warn\<close> is the only effect of the functions below: each returns the list of
  the lines it has written next to its result.
\<close>

type_synonym date_parser = "string \<Rightarrow> int option"

text \<open>The engine's parser on the four instants of the scenario of the specification.\<close>

definition sampleDates :: date_parser where
  "sampleDates = map_of
     [(''2025-01-20T01:00:00Z'', 1737334800000),
      (''2025-01-20T02:00:00Z'', 1737338400000),
      (''2025-01-20T03:00:00Z'', 1737342000000),
      (''2025-01-20T04:00:00Z'', 1737345600000)]"

section \<open>The maintenance window\<close>

text \<open>
  \<^verbatim>\<open>
  export function isInMaintenanceWindow(config) {
      const now = new Date();
      if (config.startTime) {
          const start = new Date(config.startTime);
          if (isNaN(start.getTime())) {
              console.warn(`Invalid startTime format: ${config.startTime}. Ignoring time check.`);
          }
          else if (now < start) { return false; }
      }
      if (config.endTime) {
          const end = new Date(config.endTime);
          if (isNaN(end.getTime())) {
              console.warn(`Invalid endTime format: ${config.endTime}. Ignoring time check.`);
          }
          else if (now > end) { return false; }
      }
      return true;
  }
  \<close>
  Each of the two blocks either returns (\<open>Some r\<close>) or falls through (\<open>None\<close>).
  \<^verbatim>\<open>if (config.startTime)\<close> is false for a missing field and for the empty string.
\<close>

definition startBlock :: "date_parser \<Rightarrow> int \<Rightarrow> MaintenanceConfig \<Rightarrow> bool option \<times> string list" where
  "startBlock parseDate now c =
     (case startTime c of
        None \<Rightarrow> (None, [])
      | Some s \<Rightarrow>
          if s = [] then (None, [])
          else (case parseDate s of
                  None \<Rightarrow> (None, [''Invalid startTime format: '' @ s @ ''. Ignoring time check.''])
                | Some start \<Rightarrow> if now < start then (Some False, []) else (None, [])))"

definition endBlock :: "date_parser \<Rightarrow> int \<Rightarrow> MaintenanceConfig \<Rightarrow> bool option \<times> string list" where
  "endBlock parseDate now c =
     (case endTime c of
        None \<Rightarrow> (None, [])
      | Some s \<Rightarrow>
          if s = [] then (None, [])
          else (case parseDate s of
                  None \<Rightarrow> (None, [''Invalid endTime format: '' @ s @ ''. Ignoring time check.''])
                | Some end_ms \<Rightarrow> if now > end_ms then (Some False, []) else (None, [])))"

definition isInMaintenanceWindow :: "date_parser \<Rightarrow> int \<Rightarrow> MaintenanceConfig \<Rightarrow> bool \<times> string list" where
  "isInMaintenanceWindow parseDate now c =
     (case startBlock parseDate now c of
        (Some r, w1) \<Rightarrow> (r, w1)
      | (None, w1) \<Rightarrow>
          (case endBlock parseDate now c of
             (Some r, w2) \<Rightarrow> (r, w1 @ w2)
           | (None, w2) \<Rightarrow> (True, w1 @ w2)))"

text \<open>
  \<^verbatim>\<open>
  export function isMaintenanceActive(config) {
      if (!config.enabled) { return false; }
      return isInMaintenanceWindow(config);
  }
  \<close>
\<close>

definition isMaintenanceActive :: "date_parser \<Rightarrow> int \<Rightarrow> MaintenanceConfig \<Rightarrow> bool \<times> string list" where
  "isMaintenanceActive parseDate now c =
     (if \<not> enabled c then (False, []) else isInMaintenanceWindow parseDate now c)"

section \<open>Reading the configuration\<close>

text \<open>
  The host of \<^verbatim>\<open>readMaintenanceConfig\<close>: \<^verbatim>\<open>readFileSync(path, "utf-8")\<close> and
  \<^verbatim>\<open>JSON.parse\<close> either return or throw an \<^verbatim>\<open>Error\<close> (\<open>Inl\<close>), and so does
  \<^verbatim>\<open>join(process.cwd(), filePath)\<close>, which resolves a relative path. An error of the file
  system carries a \<^verbatim>\<open>code\<close> (\<^verbatim>\<open>"ENOENT"\<close> for a missing file); a
  \<^verbatim>\<open>SyntaxError\<close> of the parser has none.
\<close>

datatype js_error = JsError (err_code: "string option") (err_message: string)

record host =
  readFileSync :: "string \<Rightarrow> js_error + string"
  JSON_parse :: "string \<Rightarrow> js_error + jsval"
  join_cwd :: "string \<Rightarrow> js_error + string"

text \<open>
  \<^verbatim>\<open>
  export function readMaintenanceConfig(filePath = "public/maintenance.json", options = {}) {
      const { silent = false } = options;
      try {
          const absolutePath = filePath.startsWith("/") ? filePath : join(process.cwd(), filePath);
          const fileContent = readFileSync(absolutePath, "utf-8");
          const data = JSON.parse(fileContent);
          if (!validateMaintenanceConfig(data)) {
              if (!silent) {
                  console.warn(`Invalid maintenance config structure in ${filePath}. Using default: { enabled: false }`);
              }
              return { enabled: false };
          }
          return data;
      }
      catch (error) {
          if (!silent && error instanceof Error) {
              if (!("code" in error && error.code === "ENOENT")) {
                  console.warn(`Error reading maintenance config: ${error.message}`);
              }
          }
          return { enabled: false };
      }
  }
  \<close>
  \<open>tryRead\<close> is the body of the \<^verbatim>\<open>try\<close>, with what it throws as \<open>Inl\<close>;
  \<open>readMaintenanceConfig\<close> adds the defaults of the parameters and the \<^verbatim>\<open>catch\<close>,
  in which nothing throws: its result is a value, never an error. A thrown value is an
  \<^verbatim>\<open>Error\<close> here, so \<^verbatim>\<open>error instanceof Error\<close> holds in the handler.
\<close>

definition safeDefault :: jsval where
  "safeDefault = JObj [(''enabled'', JBool False)]"

definition absolutePath :: "host \<Rightarrow> string \<Rightarrow> js_error + string" where
  "absolutePath h filePath =
     (if take 1 filePath = ''/'' then Inr filePath else join_cwd h filePath)"

definition tryRead :: "host \<Rightarrow> string \<Rightarrow> bool \<Rightarrow> js_error + (jsval \<times> string list)" where
  "tryRead h filePath silent' =
     (case absolutePath h filePath of
        Inl e \<Rightarrow> Inl e
      | Inr path \<Rightarrow>
          (case readFileSync h path of
             Inl e \<Rightarrow> Inl e
           | Inr fileContent \<Rightarrow>
               (case JSON_parse h fileContent of
                  Inl e \<Rightarrow> Inl e
                | Inr data \<Rightarrow>
                    if \<not> validateMaintenanceConfig data
                    then Inr (safeDefault,
                              if \<not> silent'
                              then [''Invalid maintenance config structure in '' @ filePath
                                    @ ''. Using default: { enabled: false }'']
                              else [])
                    else Inr (data, []))))"

definition defaultPath :: "string option \<Rightarrow> string" where
  "defaultPath filePathArg =
     (case filePathArg of None \<Rightarrow> ''public/maintenance.json'' | Some p \<Rightarrow> p)"

definition defaultSilent :: "MaintenanceOptions option \<Rightarrow> bool" where
  "defaultSilent optionsArg =
     (let options = (case optionsArg of None \<Rightarrow> \<lparr>configPath = None, silent = None\<rparr> | Some opts \<Rightarrow> opts)
      in case silent options of None \<Rightarrow> False | Some b \<Rightarrow> b)"

definition readMaintenanceConfig ::
    "host \<Rightarrow> string option \<Rightarrow> MaintenanceOptions option \<Rightarrow> jsval \<times> string list" where
  "readMaintenanceConfig h filePathArg optionsArg =
     (let filePath = defaultPath filePathArg;
          silent' = defaultSilent optionsArg
      in case tryRead h filePath silent' of
           Inr r \<Rightarrow> r
         | Inl error \<Rightarrow>
             (safeDefault,
              if \<not> silent' \<and> \<not> (err_code error = Some ''ENOENT'')
              then [''Error reading maintenance config: '' @ err_message error]
              else []))"

text \<open>A host with a single file, whatever the path: what reading it and decoding it give.\<close>

definition fileHost :: "js_error + string \<Rightarrow> js_error + jsval \<Rightarrow> host" where
  "fileHost rd parsed =
     \<lparr>readFileSync = (\<lambda>path. rd), JSON_parse = (\<lambda>content. parsed),
      join_cwd = (\<lambda>filePath. Inr (''/app/'' @ filePath))\<rparr>"

section \<open>The status query\<close>

text \<open>
  \<^verbatim>\<open>
  export function getMaintenanceStatus(filePath) {
      const config = readMaintenanceConfig(filePath);
      if (!config.enabled) {
          return { active: false, config, reason: "Maintenance is disabled (enabled: false)" };
      }
      const inWindow = isInMaintenanceWindow(config);
      if (!inWindow) {
          const now = new Date();
          if (config.startTime && new Date(config.startTime) > now) {
              return { active: false, config,
                       reason: `Maintenance hasn't started yet (starts at ${config.startTime})` };
          }
          if (config.endTime && new Date(config.endTime) < now) {
              return { active: false, config,
                       reason: `Maintenance has ended (ended at ${config.endTime})` };
          }
      }
      return { active: true, config,
               reason: config.endTime ? `Maintenance active until ${config.endTime}`
                                      : "Maintenance active (no end time specified)" };
  }
  \<close>
  The clock is read twice, in \<^verbatim>\<open>isInMaintenanceWindow\<close> (\<open>now1\<close>) and after it
  (\<open>now2\<close>). \<open>truthy\<close> is \<^verbatim>\<open>config.startTime && ...\<close> on an optional string;
  a comparison with an invalid date is false.
\<close>

definition truthy :: "string option \<Rightarrow> bool" where
  "truthy v = (case v of None \<Rightarrow> False | Some s \<Rightarrow> s \<noteq> [])"

definition date_gt :: "date_parser \<Rightarrow> string option \<Rightarrow> int \<Rightarrow> bool" where
  "date_gt parseDate v now =
     (case v of None \<Rightarrow> False
      | Some s \<Rightarrow> (case parseDate s of None \<Rightarrow> False | Some t \<Rightarrow> t > now))"

definition date_lt :: "date_parser \<Rightarrow> string option \<Rightarrow> int \<Rightarrow> bool" where
  "date_lt parseDate v now =
     (case v of None \<Rightarrow> False
      | Some s \<Rightarrow> (case parseDate s of None \<Rightarrow> False | Some t \<Rightarrow> t < now))"

definition tmpl :: "string option \<Rightarrow> string" where
  "tmpl v = (case v of None \<Rightarrow> ''undefined'' | Some s \<Rightarrow> s)"

definition getMaintenanceStatus ::
    "host \<Rightarrow> date_parser \<Rightarrow> int \<Rightarrow> int \<Rightarrow> string option \<Rightarrow> MaintenanceStatus \<times> string list" where
  "getMaintenanceStatus h parseDate now1 now2 filePath =
     (case readMaintenanceConfig h filePath None of
        (data, w0) \<Rightarrow>
          let c = asConfig data;
              activeStatus =
                \<lparr>active = True, config = Some c,
                 reason = Some (if truthy (endTime c)
                                then ''Maintenance active until '' @ tmpl (endTime c)
                                else ''Maintenance active (no end time specified)'')\<rparr>
          in
          if \<not> enabled c
          then (\<lparr>active = False, config = Some c,
                 reason = Some ''Maintenance is disabled (enabled: false)''\<rparr>, w0)
          else
            (case isInMaintenanceWindow parseDate now1 c of
               (inWindow, w1) \<Rightarrow>
                 if \<not> inWindow
                 then
                   if truthy (startTime c) \<and> date_gt parseDate (startTime c) now2
                   then (\<lparr>active = False, config = Some c,
                          reason = Some (''Maintenance hasn't started yet (starts at ''
                                         @ tmpl (startTime c) @ '')'')\<rparr>, w0 @ w1)
                   else if truthy (endTime c) \<and> date_lt parseDate (endTime c) now2
                   then (\<lparr>active = False, config = Some c,
                          reason = Some (''Maintenance has ended (ended at ''
                                         @ tmpl (endTime c) @ '')'')\<rparr>, w0 @ w1)
                   else (activeStatus, w0 @ w1)
                 else (activeStatus, w0 @ w1)))"

section \<open>The countdown\<close>

text \<open>
  \<^verbatim>\<open>
  export function calculateTimeRemaining(endTime?: string): {
      days: number; hours: number; minutes: number; seconds: number; totalSeconds: number;
  } | null {
      if (!endTime) { return null; }
      const end = new Date(endTime);
      if (isNaN(end.getTime())) {
          console.warn(`Invalid endTime format: ${endTime}`);
          return null;
      }
      const now = new Date();
      const totalSeconds = Math.max(0, Math.floor((end.getTime() - now.getTime()) / 1000));
      if (totalSeconds === 0) {
          return { days: 0, hours: 0, minutes: 0, seconds: 0, totalSeconds: 0 };
      }
      const days = Math.floor(totalSeconds / (24 * 60 * 60));
      const hours = Math.floor((totalSeconds % (24 * 60 * 60)) / (60 * 60));
      const minutes = Math.floor((totalSeconds % (60 * 60)) / 60);
      const seconds = totalSeconds % 60;
      return { days, hours, minutes, seconds, totalSeconds };
  }
  \<close>
  \<^verbatim>\<open>formatCountdown\<close> takes the first four fields only, so the breakdown is a record
  that extends the one it takes. \<open>div\<close> on \<open>int\<close> rounds down, as
  \<^verbatim>\<open>Math.floor\<close> of the quotient does.
\<close>

record countdown =
  days :: int
  hours :: int
  minutes :: int
  seconds :: int

record TimeRemaining = countdown +
  totalSeconds :: int

definition calculateTimeRemaining ::
    "date_parser \<Rightarrow> int \<Rightarrow> string option \<Rightarrow> TimeRemaining option \<times> string list" where
  "calculateTimeRemaining parseDate now endTimeArg =
     (case endTimeArg of
        None \<Rightarrow> (None, [])
      | Some s \<Rightarrow>
          if s = [] then (None, [])
          else (case parseDate s of
                  None \<Rightarrow> (None, [''Invalid endTime format: '' @ s])
                | Some end_ms \<Rightarrow>
                    let total = max 0 ((end_ms - now) div 1000) in
                    if total = 0
                    then (Some \<lparr>days = 0, hours = 0, minutes = 0, seconds = 0, totalSeconds = 0\<rparr>, [])
                    else (Some \<lparr>days = total div (24 * 60 * 60),
                                hours = (total mod (24 * 60 * 60)) div (60 * 60),
                                minutes = (total mod (60 * 60)) div 60,
                                seconds = total mod 60,
                                totalSeconds = total\<rparr>, [])))"

text \<open>
  \<^verbatim>\<open>
  export function formatCountdown(
      timeRemaining: { days: number; hours: number; minutes: number; seconds: number; } | null
  ): string {
      if (!timeRemaining) { return ""; }
      const { days, hours, minutes, seconds } = timeRemaining;
      if (days > 0) { return `${days}d ${hours}h ${minutes}m`; }
      if (hours > 0) { return `${hours}h ${minutes}m`; }
      if (minutes > 0) { return `${minutes}m ${seconds}s`; }
      return `${seconds}s`;
  }
  \<close>
  \<open>show_int\<close> is the decimal text a template literal gives an integral number.
\<close>

fun show_nat :: "nat \<Rightarrow> string" where
  "show_nat n =
     (if n < 10 then [''0123456789'' ! n]
      else show_nat (n div 10) @ [''0123456789'' ! (n mod 10)])"

declare show_nat.simps [simp del]

definition show_int :: "int \<Rightarrow> string" where
  "show_int i = (if i < 0 then ''-'' @ show_nat (nat (- i)) else show_nat (nat i))"

definition formatCountdown :: "'a countdown_scheme option \<Rightarrow> string" where
  "formatCountdown timeRemaining =
     (case timeRemaining of
        None \<Rightarrow> []
      | Some t \<Rightarrow>
          if days t > 0
          then show_int (days t) @ ''d '' @ show_int (hours t) @ ''h '' @ show_int (minutes t) @ ''m''
          else if hours t > 0
          then show_int (hours t) @ ''h '' @ show_int (minutes t) @ ''m''
          else if minutes t > 0
          then show_int (minutes t) @ ''m '' @ show_int (seconds t) @ ''s''
          else show_int (seconds t) @ ''s'')"

text \<open>Reading a decimal numeral back, to state that \<open>show_nat\<close> writes the decimal digits.\<close>

definition digit_of :: "char \<Rightarrow> nat" where
  "digit_of ch = of_char ch - 48"

definition read_nat :: "string \<Rightarrow> nat" where
  "read_nat s = foldl (\<lambda>a ch. 10 * a + digit_of ch) 0 s"

section \<open>The validator against its specification\<close>

lemma validate_iff_spec: "validateMaintenanceConfig v = (\<not> spec_rejects v)"
  by (cases v)
     (auto simp: validateMaintenanceConfig_def spec_rejects_def typeof_prop_def is_record_def
        is_boolean_def is_string_def present_not_string_def
        split: option.splits jsval.splits)

lemma validate_configJson: "validateMaintenanceConfig (configJson c)"
  by (simp add: validateMaintenanceConfig_def configJson_def opt_field_def typeof_prop_def
      split: option.splits)

lemma asConfig_configJson: "asConfig (configJson c) = (c :: MaintenanceConfig)"
  by (cases c)
     (simp add: asConfig_def configJson_def opt_field_def str_prop_def split: option.splits)

text \<open>
  Claim C5. \<open>validateMaintenanceConfig\<close> rejects exactly the values the specification
  lists (null, not an object/record, no \<open>enabled\<close> key, an \<open>enabled\<close> that is not a
  boolean, a \<open>startTime\<close>, \<open>endTime\<close> or \<open>message\<close> that is present and not a
  string) and accepts every other value. The content of a string-typed \<open>startTime\<close> or
  \<open>endTime\<close> is not looked at: any strings \<open>s\<close> and \<open>e\<close> are accepted. The six
  examples of the specification come out as it says.
\<close>

theorem validateMaintenanceConfig_spec:
  "validateMaintenanceConfig v = (\<not> spec_rejects v)
   \<and> validateMaintenanceConfig
         (JObj [(''enabled'', JBool b), (''startTime'', JStr s), (''endTime'', JStr e)])
   \<and> \<not> validateMaintenanceConfig JNull
   \<and> \<not> validateMaintenanceConfig (JObj [])
   \<and> \<not> validateMaintenanceConfig (JObj [(''enabled'', JStr ''true'')])
   \<and> \<not> validateMaintenanceConfig (JObj [(''enabled'', JBool True), (''startTime'', JNum 123)])
   \<and> validateMaintenanceConfig (JObj [(''enabled'', JBool True)])
   \<and> validateMaintenanceConfig
         (JObj [(''enabled'', JBool False), (''startTime'', JStr ''2025-01-01T00:00:00Z'')])"
proof (intro conjI)
  show "validateMaintenanceConfig v = (\<not> spec_rejects v)"
    by (rule validate_iff_spec)
qed (simp_all add: validateMaintenanceConfig_def typeof_prop_def)

theorem validateMaintenanceConfig_spec_witness:
  "validateMaintenanceConfig (JObj [(''enabled'', JBool True), (''message'', JNull)])
     = (\<not> spec_rejects (JObj [(''enabled'', JBool True), (''message'', JNull)]))
   \<and> spec_rejects (JObj [(''enabled'', JBool True), (''message'', JNull)])
   \<and> \<not> spec_rejects (JObj [(''enabled'', JBool True), (''startTime'', JStr ''soon'')])
   \<and> spec_rejects (JArr [JBool True])
   \<and> \<not> validateMaintenanceConfig (JArr [JBool True])"
  using validateMaintenanceConfig_spec
          [of "JObj [(''enabled'', JBool True), (''message'', JNull)]" True "''a''" "''b''"]
        validateMaintenanceConfig_spec [of "JArr [JBool True]" True "''a''" "''b''"]
  by (simp add: spec_rejects_def is_record_def is_boolean_def is_string_def
      present_not_string_def)

section \<open>The decision\<close>

text \<open>
  Claim C1. With \<open>enabled = false\<close>, \<open>isMaintenanceActive\<close> returns false for every
  \<open>startTime\<close> and \<open>endTime\<close>, malformed ones included, at every time and with every
  date parser, and the window is not evaluated: nothing is written to the console, where
  \<open>isInMaintenanceWindow\<close> on a malformed bound writes a warning.
\<close>

theorem isMaintenanceActive_disabled:
  "\<not> enabled c \<Longrightarrow> isMaintenanceActive parseDate now c = (False, [])"
  by (simp add: isMaintenanceActive_def)

theorem isMaintenanceActive_disabled_witness:
  "\<not> enabled \<lparr>enabled = False, startTime = Some ''next tuesday'',
               endTime = Some ''2025-13-45'', message = None\<rparr>
   \<and> isMaintenanceActive sampleDates 1737342000000
         \<lparr>enabled = False, startTime = Some ''next tuesday'',
          endTime = Some ''2025-13-45'', message = None\<rparr>
       = (False, [])
   \<and> snd (isInMaintenanceWindow sampleDates 1737342000000
         \<lparr>enabled = False, startTime = Some ''next tuesday'',
          endTime = Some ''2025-13-45'', message = None\<rparr>)
       \<noteq> []"
  using isMaintenanceActive_disabled
          [of "\<lparr>enabled = False, startTime = Some ''next tuesday'',
                endTime = Some ''2025-13-45'', message = None\<rparr>" sampleDates 1737342000000]
  by (simp add: isInMaintenanceWindow_def startBlock_def endBlock_def sampleDates_def)

lemma window_start_unparseable:
  "startTime c = Some s \<Longrightarrow> parseDate s = None \<Longrightarrow>
     fst (isInMaintenanceWindow parseDate now c)
       = fst (isInMaintenanceWindow parseDate now (c\<lparr>startTime := None\<rparr>))"
  by (simp add: isInMaintenanceWindow_def startBlock_def endBlock_def split: option.splits)

lemma window_end_unparseable:
  "endTime c = Some s \<Longrightarrow> parseDate s = None \<Longrightarrow>
     fst (isInMaintenanceWindow parseDate now c)
       = fst (isInMaintenanceWindow parseDate now (c\<lparr>endTime := None\<rparr>))"
  by (simp add: isInMaintenanceWindow_def startBlock_def endBlock_def split: option.splits)

text \<open>The window check in one formula: it fails exactly on a violated bound.\<close>

lemma window_iff:
  "fst (isInMaintenanceWindow parseDate now c) \<longleftrightarrow>
     \<not> (truthy (startTime c) \<and> date_gt parseDate (startTime c) now)
     \<and> \<not> (truthy (endTime c) \<and> date_lt parseDate (endTime c) now)"
  by (simp add: isInMaintenanceWindow_def startBlock_def endBlock_def truthy_def date_gt_def
      date_lt_def split: option.splits)

text \<open>
  Claim C2. With \<open>enabled = true\<close>, at the time \<open>now\<close>: with neither bound set the
  verdict is true; with a \<open>startTime\<close> that is set and parses to an instant strictly
  after \<open>now\<close> it is false; with an \<open>endTime\<close> that is set and parses to an instant
  strictly before \<open>now\<close> it is false; and it is true when every bound that is present
  and parses leaves \<open>now\<close> inside (the start is not after \<open>now\<close>, the end not before).
  A bound is set when \<^verbatim>\<open>if (config.startTime)\<close> holds: the field is there and is not the
  empty string. The engines parse no date out of the empty string, so that a string with
  \<open>parseDate s = Some t\<close> is never empty there.
\<close>

theorem isMaintenanceActive_enabled:
  assumes "enabled c"
  shows "(startTime c = None \<and> endTime c = None \<longrightarrow> fst (isMaintenanceActive parseDate now c))
    \<and> (\<forall>s t. startTime c = Some s \<and> s \<noteq> [] \<and> parseDate s = Some t \<and> now < t
          \<longrightarrow> \<not> fst (isMaintenanceActive parseDate now c))
    \<and> (\<forall>s t. endTime c = Some s \<and> s \<noteq> [] \<and> parseDate s = Some t \<and> now > t
          \<longrightarrow> \<not> fst (isMaintenanceActive parseDate now c))
    \<and> ((\<forall>s t. startTime c = Some s \<and> s \<noteq> [] \<and> parseDate s = Some t \<longrightarrow> t \<le> now)
        \<and> (\<forall>s t. endTime c = Some s \<and> s \<noteq> [] \<and> parseDate s = Some t \<longrightarrow> now \<le> t)
          \<longrightarrow> fst (isMaintenanceActive parseDate now c))"
  using assms
  by (auto simp: isMaintenanceActive_def isInMaintenanceWindow_def startBlock_def endBlock_def
      split: option.splits)

theorem isMaintenanceActive_enabled_witness:
  "enabled \<lparr>enabled = True, startTime = None, endTime = None, message = Some ''Back soon''\<rparr>
   \<and> fst (isMaintenanceActive sampleDates 1737342000000
        \<lparr>enabled = True, startTime = None, endTime = None, message = Some ''Back soon''\<rparr>)
   \<and> enabled \<lparr>enabled = True, startTime = Some ''2025-01-20T02:00:00Z'',
              endTime = Some ''2025-01-20T04:00:00Z'', message = None\<rparr>
   \<and> \<not> fst (isMaintenanceActive sampleDates 1737334800000
        \<lparr>enabled = True, startTime = Some ''2025-01-20T02:00:00Z'',
         endTime = Some ''2025-01-20T04:00:00Z'', message = None\<rparr>)
   \<and> fst (isMaintenanceActive sampleDates 1737342000000
        \<lparr>enabled = True, startTime = Some ''2025-01-20T02:00:00Z'',
         endTime = Some ''2025-01-20T04:00:00Z'', message = None\<rparr>)
   \<and> \<not> fst (isMaintenanceActive sampleDates 1737349200000
        \<lparr>enabled = True, startTime = Some ''2025-01-20T02:00:00Z'',
         endTime = Some ''2025-01-20T04:00:00Z'', message = None\<rparr>)"
proof -
  let ?open = "\<lparr>enabled = True, startTime = None, endTime = None, message = Some ''Back soon''\<rparr>"
  let ?c = "\<lparr>enabled = True, startTime = Some ''2025-01-20T02:00:00Z'',
             endTime = Some ''2025-01-20T04:00:00Z'', message = None\<rparr>"
  have s: "sampleDates ''2025-01-20T02:00:00Z'' = Some 1737338400000"
    and e: "sampleDates ''2025-01-20T04:00:00Z'' = Some 1737345600000"
    by (simp_all add: sampleDates_def)
  have "fst (isMaintenanceActive sampleDates 1737342000000 ?open)"
    using isMaintenanceActive_enabled [of ?open sampleDates 1737342000000] by simp
  moreover have "\<not> fst (isMaintenanceActive sampleDates 1737334800000 ?c)"
    using isMaintenanceActive_enabled [of ?c sampleDates 1737334800000] s by simp
  moreover have "fst (isMaintenanceActive sampleDates 1737342000000 ?c)"
    using isMaintenanceActive_enabled [of ?c sampleDates 1737342000000] s e by simp
  moreover have "\<not> fst (isMaintenanceActive sampleDates 1737349200000 ?c)"
    using isMaintenanceActive_enabled [of ?c sampleDates 1737349200000] e by simp
  ultimately show ?thesis by simp
qed

text \<open>
  Claim C9. The window includes both endpoints. With \<open>enabled = true\<close>: at a time equal
  to a parsed \<open>startTime\<close>, and not after any parsed \<open>endTime\<close>, the verdict is active;
  at a time equal to a parsed \<open>endTime\<close>, and not before any parsed \<open>startTime\<close>,
  the verdict is active. The comparisons of the code are the strict \<open>now < start\<close> and
  \<open>now > end\<close>.
\<close>

theorem window_endpoints_inclusive:
  assumes "enabled c"
  shows "(\<forall>s. startTime c = Some s \<and> parseDate s = Some now
            \<and> (\<forall>s' t. endTime c = Some s' \<and> s' \<noteq> [] \<and> parseDate s' = Some t \<longrightarrow> now \<le> t)
          \<longrightarrow> fst (isMaintenanceActive parseDate now c))
    \<and> (\<forall>s. endTime c = Some s \<and> parseDate s = Some now
            \<and> (\<forall>s' t. startTime c = Some s' \<and> s' \<noteq> [] \<and> parseDate s' = Some t \<longrightarrow> t \<le> now)
          \<longrightarrow> fst (isMaintenanceActive parseDate now c))"
  using assms
  by (auto simp: isMaintenanceActive_def isInMaintenanceWindow_def startBlock_def endBlock_def
      split: option.splits)

theorem window_endpoints_inclusive_witness:
  "enabled \<lparr>enabled = True, startTime = Some ''2025-01-20T02:00:00Z'',
            endTime = Some ''2025-01-20T04:00:00Z'', message = None\<rparr>
   \<and> sampleDates ''2025-01-20T02:00:00Z'' = Some 1737338400000
   \<and> fst (isMaintenanceActive sampleDates 1737338400000
        \<lparr>enabled = True, startTime = Some ''2025-01-20T02:00:00Z'',
         endTime = Some ''2025-01-20T04:00:00Z'', message = None\<rparr>)
   \<and> sampleDates ''2025-01-20T04:00:00Z'' = Some 1737345600000
   \<and> fst (isMaintenanceActive sampleDates 1737345600000
        \<lparr>enabled = True, startTime = Some ''2025-01-20T02:00:00Z'',
         endTime = Some ''2025-01-20T04:00:00Z'', message = None\<rparr>)
   \<and> \<not> fst (isMaintenanceActive sampleDates 1737338399999
        \<lparr>enabled = True, startTime = Some ''2025-01-20T02:00:00Z'',
         endTime = Some ''2025-01-20T04:00:00Z'', message = None\<rparr>)
   \<and> \<not> fst (isMaintenanceActive sampleDates 1737345600001
        \<lparr>enabled = True, startTime = Some ''2025-01-20T02:00:00Z'',
         endTime = Some ''2025-01-20T04:00:00Z'', message = None\<rparr>)"
proof -
  let ?c = "\<lparr>enabled = True, startTime = Some ''2025-01-20T02:00:00Z'',
             endTime = Some ''2025-01-20T04:00:00Z'', message = None\<rparr>"
  have s: "sampleDates ''2025-01-20T02:00:00Z'' = Some 1737338400000"
    and e: "sampleDates ''2025-01-20T04:00:00Z'' = Some 1737345600000"
    by (simp_all add: sampleDates_def)
  have "fst (isMaintenanceActive sampleDates 1737338400000 ?c)"
    using window_endpoints_inclusive [of ?c sampleDates 1737338400000] s e by simp
  moreover have "fst (isMaintenanceActive sampleDates 1737345600000 ?c)"
    using window_endpoints_inclusive [of ?c sampleDates 1737345600000] s e by simp
  moreover have "\<not> fst (isMaintenanceActive sampleDates 1737338399999 ?c)"
    by (simp add: isMaintenanceActive_def isInMaintenanceWindow_def startBlock_def s)
  moreover have "\<not> fst (isMaintenanceActive sampleDates 1737345600001 ?c)"
    by (simp add: isMaintenanceActive_def isInMaintenanceWindow_def startBlock_def
        endBlock_def s e)
  ultimately show ?thesis using s e by simp
qed

text \<open>
  Claim C10. An empty-string \<open>startTime\<close> or \<open>endTime\<close> is an absent bound, not an
  unparseable one: the window check gives the same verdict and the same (empty) console
  output as without the field, \<^verbatim>\<open>{enabled: true, startTime: "", endTime: ""}\<close> is active
  with no warning, and \<open>calculateTimeRemaining\<close> of the empty string is none with no
  warning, as for a missing argument. A non-empty string that does not parse is warned
  about in both functions.
\<close>

theorem empty_string_is_absent:
  "isInMaintenanceWindow parseDate now (c\<lparr>startTime := Some []\<rparr>)
     = isInMaintenanceWindow parseDate now (c\<lparr>startTime := None\<rparr>)
   \<and> isInMaintenanceWindow parseDate now (c\<lparr>endTime := Some []\<rparr>)
     = isInMaintenanceWindow parseDate now (c\<lparr>endTime := None\<rparr>)
   \<and> isMaintenanceActive parseDate now
        \<lparr>enabled = True, startTime = Some [], endTime = Some [], message = m\<rparr> = (True, [])
   \<and> calculateTimeRemaining parseDate now (Some []) = (None, [])
   \<and> calculateTimeRemaining parseDate now (Some []) = calculateTimeRemaining parseDate now None
   \<and> (s \<noteq> [] \<and> parseDate s = None \<longrightarrow>
        snd (isInMaintenanceWindow parseDate now (c\<lparr>startTime := Some s\<rparr>)) \<noteq> []
        \<and> calculateTimeRemaining parseDate now (Some s)
            = (None, [''Invalid endTime format: '' @ s]))"
  by (simp add: isMaintenanceActive_def isInMaintenanceWindow_def startBlock_def endBlock_def
      calculateTimeRemaining_def split: option.splits prod.splits)

theorem empty_string_is_absent_witness:
  "isMaintenanceActive sampleDates 1737342000000
      \<lparr>enabled = True, startTime = Some [], endTime = Some [], message = None\<rparr> = (True, [])
   \<and> calculateTimeRemaining sampleDates 1737342000000 (Some []) = (None, [])
   \<and> ''tomorrow'' \<noteq> [] \<and> sampleDates ''tomorrow'' = None
   \<and> calculateTimeRemaining sampleDates 1737342000000 (Some ''tomorrow'')
        = (None, [''Invalid endTime format: tomorrow''])"
  using empty_string_is_absent
          [of sampleDates 1737342000000
              "\<lparr>enabled = True, startTime = None, endTime = None, message = None\<rparr>"
              None "''tomorrow''"]
  by (simp add: sampleDates_def)

section \<open>Reading never fails\<close>

lemma tryRead_throws:
  "tryRead h filePath q = Inl e \<longleftrightarrow>
     absolutePath h filePath = Inl e
     \<or> (\<exists>path. absolutePath h filePath = Inr path \<and> readFileSync h path = Inl e)
     \<or> (\<exists>path content. absolutePath h filePath = Inr path
           \<and> readFileSync h path = Inr content \<and> JSON_parse h content = Inl e)"
  by (auto simp: tryRead_def split: sum.splits)

lemma read_caught:
  "tryRead h (defaultPath filePath) (defaultSilent opts) = Inl e \<Longrightarrow>
     fst (readMaintenanceConfig h filePath opts) = safeDefault"
  by (simp add: readMaintenanceConfig_def)

lemma read_rejected:
  "absolutePath h (defaultPath filePath) = Inr path \<Longrightarrow> readFileSync h path = Inr content \<Longrightarrow>
   JSON_parse h content = Inr data \<Longrightarrow> \<not> validateMaintenanceConfig data \<Longrightarrow>
     fst (readMaintenanceConfig h filePath opts) = safeDefault"
  by (simp add: readMaintenanceConfig_def tryRead_def)

lemma read_accepted:
  "absolutePath h (defaultPath filePath) = Inr path \<Longrightarrow> readFileSync h path = Inr content \<Longrightarrow>
   JSON_parse h content = Inr data \<Longrightarrow> validateMaintenanceConfig data \<Longrightarrow>
     readMaintenanceConfig h filePath opts = (data, [])"
  by (simp add: readMaintenanceConfig_def tryRead_def)

lemma validate_safeDefault: "validateMaintenanceConfig safeDefault"
  by (simp add: validateMaintenanceConfig_def safeDefault_def typeof_prop_def)

lemma read_validates: "validateMaintenanceConfig (fst (readMaintenanceConfig h filePath opts))"
  by (auto simp: readMaintenanceConfig_def tryRead_def validate_safeDefault Let_def
      split: sum.splits)

text \<open>
  Claim C4. \<open>readMaintenanceConfig\<close> raises nothing: its result is a configuration and
  the console output, whatever the host does. When resolving the path throws, when
  \<^verbatim>\<open>readFileSync\<close> throws (the file is missing or cannot be read), when
  \<^verbatim>\<open>JSON.parse\<close> throws, and when the validator rejects the decoded value, the
  configuration returned is the safe default \<^verbatim>\<open>{enabled: false}\<close>; whatever the body
  of the \<^verbatim>\<open>try\<close> throws, the result is that default. For every host, path and
  options the configuration returned satisfies \<open>validateMaintenanceConfig\<close>.
\<close>

theorem readMaintenanceConfig_safe:
  "(\<forall>e. absolutePath h (defaultPath filePath) = Inl e
        \<longrightarrow> fst (readMaintenanceConfig h filePath opts) = safeDefault)
   \<and> (\<forall>path e. absolutePath h (defaultPath filePath) = Inr path \<and> readFileSync h path = Inl e
        \<longrightarrow> fst (readMaintenanceConfig h filePath opts) = safeDefault)
   \<and> (\<forall>path content e. absolutePath h (defaultPath filePath) = Inr path
          \<and> readFileSync h path = Inr content \<and> JSON_parse h content = Inl e
        \<longrightarrow> fst (readMaintenanceConfig h filePath opts) = safeDefault)
   \<and> (\<forall>path content data. absolutePath h (defaultPath filePath) = Inr path
          \<and> readFileSync h path = Inr content \<and> JSON_parse h content = Inr data
          \<and> \<not> validateMaintenanceConfig data
        \<longrightarrow> fst (readMaintenanceConfig h filePath opts) = safeDefault)
   \<and> (\<forall>e. tryRead h (defaultPath filePath) (defaultSilent opts) = Inl e
        \<longrightarrow> fst (readMaintenanceConfig h filePath opts) = safeDefault)
   \<and> validateMaintenanceConfig (fst (readMaintenanceConfig h filePath opts))"
proof (intro conjI allI impI)
  fix e assume "absolutePath h (defaultPath filePath) = Inl e"
  then have "tryRead h (defaultPath filePath) (defaultSilent opts) = Inl e"
    by (simp add: tryRead_throws)
  then show "fst (readMaintenanceConfig h filePath opts) = safeDefault"
    by (rule read_caught)
next
  fix path e
  assume "absolutePath h (defaultPath filePath) = Inr path \<and> readFileSync h path = Inl e"
  then have "tryRead h (defaultPath filePath) (defaultSilent opts) = Inl e"
    by (simp add: tryRead_throws)
  then show "fst (readMaintenanceConfig h filePath opts) = safeDefault"
    by (rule read_caught)
next
  fix path content e
  assume "absolutePath h (defaultPath filePath) = Inr path
          \<and> readFileSync h path = Inr content \<and> JSON_parse h content = Inl e"
  then have "tryRead h (defaultPath filePath) (defaultSilent opts) = Inl e"
    by (simp add: tryRead_throws)
  then show "fst (readMaintenanceConfig h filePath opts) = safeDefault"
    by (rule read_caught)
next
  fix path content data
  assume "absolutePath h (defaultPath filePath) = Inr path
          \<and> readFileSync h path = Inr content \<and> JSON_parse h content = Inr data
          \<and> \<not> validateMaintenanceConfig data"
  then show "fst (readMaintenanceConfig h filePath opts) = safeDefault"
    by (simp add: read_rejected)
next
  fix e assume "tryRead h (defaultPath filePath) (defaultSilent opts) = Inl e"
  then show "fst (readMaintenanceConfig h filePath opts) = safeDefault"
    by (rule read_caught)
next
  show "validateMaintenanceConfig (fst (readMaintenanceConfig h filePath opts))"
    by (rule read_validates)
qed

theorem readMaintenanceConfig_safe_witness:
  \<open>fst (readMaintenanceConfig
          (fileHost (Inl (JsError (Some ''ENOENT'') ''no such file or directory'')) (Inr JNull))
          None None) = safeDefault
   \<and> fst (readMaintenanceConfig
          (fileHost (Inl (JsError (Some ''EACCES'') ''permission denied'')) (Inr JNull))
          (Some ''/etc/maintenance.json'') None) = safeDefault
   \<and> fst (readMaintenanceConfig
          (fileHost (Inr ''{"enabled": tru'') (Inl (JsError None ''Unexpected end of JSON input'')))
          None (Some \<lparr>configPath = None, silent = Some True\<rparr>)) = safeDefault
   \<and> fst (readMaintenanceConfig
          (fileHost (Inr ''{"enabled": "true"}'') (Inr (JObj [(''enabled'', JStr ''true'')])))
          None None) = safeDefault
   \<and> validateMaintenanceConfig
        (fst (readMaintenanceConfig
          (fileHost (Inr ''{"enabled": true}'') (Inr (JObj [(''enabled'', JBool True)])))
          None None))\<close>
proof -
  let ?missing = \<open>fileHost (Inl (JsError (Some ''ENOENT'') ''no such file or directory'')) (Inr JNull)\<close>
  let ?denied = \<open>fileHost (Inl (JsError (Some ''EACCES'') ''permission denied'')) (Inr JNull)\<close>
  let ?broken = \<open>fileHost (Inr ''{"enabled": tru'') (Inl (JsError None ''Unexpected end of JSON input''))\<close>
  let ?wrong = \<open>fileHost (Inr ''{"enabled": "true"}'') (Inr (JObj [(''enabled'', JStr ''true'')]))\<close>
  let ?good = \<open>fileHost (Inr ''{"enabled": true}'') (Inr (JObj [(''enabled'', JBool True)]))\<close>
  have "fst (readMaintenanceConfig ?missing None None) = safeDefault"
    using readMaintenanceConfig_safe [of ?missing None None]
    by (simp add: fileHost_def absolutePath_def defaultPath_def)
  moreover have "fst (readMaintenanceConfig ?denied (Some ''/etc/maintenance.json'') None) = safeDefault"
    using readMaintenanceConfig_safe [of ?denied \<open>Some ''/etc/maintenance.json''\<close> None]
    by (simp add: fileHost_def absolutePath_def defaultPath_def)
  moreover have "fst (readMaintenanceConfig ?broken None
                   (Some \<lparr>configPath = None, silent = Some True\<rparr>)) = safeDefault"
    using readMaintenanceConfig_safe
            [of ?broken None \<open>Some \<lparr>configPath = None, silent = Some True\<rparr>\<close>]
    by (simp add: fileHost_def absolutePath_def defaultPath_def)
  moreover have "fst (readMaintenanceConfig ?wrong None None) = safeDefault"
    using readMaintenanceConfig_safe [of ?wrong None None]
    by (simp add: fileHost_def absolutePath_def defaultPath_def validateMaintenanceConfig_def
        typeof_prop_def)
  moreover have "validateMaintenanceConfig (fst (readMaintenanceConfig ?good None None))"
    using readMaintenanceConfig_safe [of ?good None None] by simp
  ultimately show ?thesis by simp
qed

text \<open>
  Claim C7. A \<open>startTime\<close> (respectively \<open>endTime\<close>) that is set and does not parse
  constrains nothing: the window check, and so the verdict, is the one of the same
  configuration without that bound; with no other bound an enabled configuration is
  active. The record is not rejected: the validator accepts the decoded form of every
  typed configuration whatever its timestamps are, and reading a file that holds it
  returns it, not the default.
\<close>

theorem unparseable_bound_ignored:
  "(startTime c = Some s \<and> parseDate s = None \<longrightarrow>
      fst (isInMaintenanceWindow parseDate now c)
        = fst (isInMaintenanceWindow parseDate now (c\<lparr>startTime := None\<rparr>))
      \<and> fst (isMaintenanceActive parseDate now c)
        = fst (isMaintenanceActive parseDate now (c\<lparr>startTime := None\<rparr>))
      \<and> (enabled c \<and> endTime c = None \<longrightarrow> fst (isMaintenanceActive parseDate now c)))
   \<and> (endTime c = Some s \<and> parseDate s = None \<longrightarrow>
      fst (isInMaintenanceWindow parseDate now c)
        = fst (isInMaintenanceWindow parseDate now (c\<lparr>endTime := None\<rparr>))
      \<and> fst (isMaintenanceActive parseDate now c)
        = fst (isMaintenanceActive parseDate now (c\<lparr>endTime := None\<rparr>))
      \<and> (enabled c \<and> startTime c = None \<longrightarrow> fst (isMaintenanceActive parseDate now c)))
   \<and> validateMaintenanceConfig (configJson c)
   \<and> fst (readMaintenanceConfig (fileHost (Inr content) (Inr (configJson c))) filePath opts)
       = configJson c"
proof -
  have "readMaintenanceConfig (fileHost (Inr content) (Inr (configJson c))) filePath opts
          = (configJson c, [])"
    by (rule read_accepted
          [where content = content
             and path = "if take 1 (defaultPath filePath) = ''/'' then defaultPath filePath
                         else ''/app/'' @ defaultPath filePath"])
       (simp_all add: fileHost_def absolutePath_def validate_configJson)
  moreover have "startTime c = Some s \<and> parseDate s = None \<and> enabled c \<and> endTime c = None
      \<longrightarrow> fst (isMaintenanceActive parseDate now c)"
    by (simp add: isMaintenanceActive_def window_iff truthy_def date_gt_def date_lt_def)
  moreover have "endTime c = Some s \<and> parseDate s = None \<and> enabled c \<and> startTime c = None
      \<longrightarrow> fst (isMaintenanceActive parseDate now c)"
    by (simp add: isMaintenanceActive_def window_iff truthy_def date_gt_def date_lt_def)
  ultimately show ?thesis
    by (simp add: isMaintenanceActive_def window_start_unparseable window_end_unparseable
        validate_configJson)
qed

theorem unparseable_bound_ignored_witness:
  "sampleDates ''tomorrow'' = None
   \<and> fst (isMaintenanceActive sampleDates 1737342000000
        \<lparr>enabled = True, startTime = Some ''tomorrow'', endTime = None, message = None\<rparr>)
   \<and> fst (isInMaintenanceWindow sampleDates 1737342000000
        \<lparr>enabled = True, startTime = Some ''tomorrow'', endTime = None, message = None\<rparr>)
     = fst (isInMaintenanceWindow sampleDates 1737342000000
        \<lparr>enabled = True, startTime = None, endTime = None, message = None\<rparr>)
   \<and> fst (isMaintenanceActive sampleDates 1737342000000
        \<lparr>enabled = True, startTime = None, endTime = Some ''tomorrow'', message = None\<rparr>)
   \<and> validateMaintenanceConfig
        (configJson \<lparr>enabled = True, startTime = Some ''tomorrow'', endTime = None, message = None\<rparr>)"
proof -
  let ?a = "\<lparr>enabled = True, startTime = Some ''tomorrow'', endTime = None, message = None\<rparr>"
  let ?b = "\<lparr>enabled = True, startTime = None, endTime = Some ''tomorrow'', message = None\<rparr>"
  have t: "sampleDates ''tomorrow'' = None"
    by (simp add: sampleDates_def)
  have a: "fst (isMaintenanceActive sampleDates 1737342000000 ?a)
      \<and> fst (isInMaintenanceWindow sampleDates 1737342000000 ?a)
          = fst (isInMaintenanceWindow sampleDates 1737342000000 (?a\<lparr>startTime := None\<rparr>))
      \<and> validateMaintenanceConfig (configJson ?a)"
    using unparseable_bound_ignored
            [of ?a "''tomorrow''" sampleDates 1737342000000 "''x''" None None] t
    by fastforce
  have b: "fst (isMaintenanceActive sampleDates 1737342000000 ?b)"
    using unparseable_bound_ignored
            [of ?b "''tomorrow''" sampleDates 1737342000000 "''x''" None None] t
    by fastforce
  from a b t show ?thesis by simp
qed

section \<open>The status and its reason\<close>

lemma typeof_boolean: "typeof x = ''boolean'' \<longleftrightarrow> (\<exists>b. x = JBool b)"
  by (cases x) auto

lemma typeof_string: "typeof x = ''string'' \<longleftrightarrow> (\<exists>s. x = JStr s)"
  by (cases x) auto

text \<open>On an accepted value the typed view loses nothing of the four fields.\<close>

lemma asConfig_faithful:
  assumes "validateMaintenanceConfig data"
  shows "get_prop data ''enabled'' = Some (JBool (enabled (asConfig data)))
    \<and> get_prop data ''startTime'' = map_option JStr (startTime (asConfig data))
    \<and> get_prop data ''endTime'' = map_option JStr (endTime (asConfig data))
    \<and> get_prop data ''message'' = map_option JStr (message (asConfig data))"
  using assms
  by (cases data)
     (auto simp: validateMaintenanceConfig_def asConfig_def str_prop_def typeof_prop_def
        typeof_boolean typeof_string split: option.splits if_splits)

lemma status_disabled:
  "readMaintenanceConfig h filePath None = (data, w0) \<Longrightarrow> \<not> enabled (asConfig data) \<Longrightarrow>
     fst (getMaintenanceStatus h parseDate now1 now2 filePath)
       = \<lparr>active = False, config = Some (asConfig data),
          reason = Some ''Maintenance is disabled (enabled: false)''\<rparr>"
  by (simp add: getMaintenanceStatus_def Let_def)

text \<open>
  With one reading of the clock for both uses, the branch after a failed window check
  that falls through to the active status is never taken.
\<close>

lemma status_enabled:
  "readMaintenanceConfig h filePath None = (data, w0) \<Longrightarrow> enabled (asConfig data) \<Longrightarrow>
     fst (getMaintenanceStatus h parseDate now now filePath)
       = (let c = asConfig data in
          if truthy (startTime c) \<and> date_gt parseDate (startTime c) now
          then \<lparr>active = False, config = Some c,
                reason = Some (''Maintenance hasn't started yet (starts at ''
                               @ tmpl (startTime c) @ '')'')\<rparr>
          else if truthy (endTime c) \<and> date_lt parseDate (endTime c) now
          then \<lparr>active = False, config = Some c,
                reason = Some (''Maintenance has ended (ended at '' @ tmpl (endTime c) @ '')'')\<rparr>
          else \<lparr>active = True, config = Some c,
                reason = Some (if truthy (endTime c)
                               then ''Maintenance active until '' @ tmpl (endTime c)
                               else ''Maintenance active (no end time specified)'')\<rparr>)"
  using window_iff [of parseDate now "asConfig data"]
  by (cases "isInMaintenanceWindow parseDate now (asConfig data)")
     (auto simp: getMaintenanceStatus_def Let_def)

text \<open>
  Claim C3. Let the file hold a value \<open>data\<close> that the validator accepts, \<open>c\<close> its
  typed view, and let both readings of the clock in \<open>getMaintenanceStatus\<close> be \<open>now\<close>.
  Then the status has \<open>active\<close> equal to \<open>isMaintenanceActive\<close> of \<open>c\<close> at \<open>now\<close>,
  carries \<open>c\<close>, and always has a reason, which follows the decision table: the disabled
  reason when \<open>enabled\<close> is false; the not-started reason naming \<open>startTime\<close> when
  \<open>now\<close> is before a set, valid \<open>startTime\<close>; the ended reason naming \<open>endTime\<close>
  when the start block of the window check falls through and \<open>now\<close> is after a set,
  valid \<open>endTime\<close>; and, when the verdict is active, the reason naming \<open>endTime\<close>
  when it is set, and the one saying that no end time is specified otherwise. As in the
  code, a bound is set when it is present and not the empty string.
\<close>

theorem getMaintenanceStatus_reason:
  assumes ap: "absolutePath h (defaultPath filePath) = Inr path"
    and rd: "readFileSync h path = Inr content"
    and js: "JSON_parse h content = Inr data"
    and ok: "validateMaintenanceConfig data"
  shows "let c = asConfig data;
             st = fst (getMaintenanceStatus h parseDate now now filePath)
         in active st = fst (isMaintenanceActive parseDate now c)
          \<and> config st = Some c
          \<and> (\<exists>r. reason st = Some r)
          \<and> (\<not> enabled c \<longrightarrow> reason st = Some ''Maintenance is disabled (enabled: false)'')
          \<and> (\<forall>s t. enabled c \<and> startTime c = Some s \<and> s \<noteq> [] \<and> parseDate s = Some t \<and> now < t
                \<longrightarrow> \<not> active st
                  \<and> reason st = Some (''Maintenance hasn't started yet (starts at '' @ s @ '')''))
          \<and> (\<forall>s t. enabled c \<and> fst (startBlock parseDate now c) = None
                  \<and> endTime c = Some s \<and> s \<noteq> [] \<and> parseDate s = Some t \<and> t < now
                \<longrightarrow> \<not> active st
                  \<and> reason st = Some (''Maintenance has ended (ended at '' @ s @ '')''))
          \<and> (active st \<longrightarrow>
                (\<forall>s. endTime c = Some s \<and> s \<noteq> []
                   \<longrightarrow> reason st = Some (''Maintenance active until '' @ s))
                \<and> (endTime c = None \<or> endTime c = Some []
                   \<longrightarrow> reason st = Some ''Maintenance active (no end time specified)''))"
proof -
  have r: "readMaintenanceConfig h filePath None = (data, [])"
    using ap rd js ok by (rule read_accepted)
  show ?thesis
  proof (cases "enabled (asConfig data)")
    case False
    then show ?thesis
      by (simp add: status_disabled [OF r] isMaintenanceActive_def Let_def)
  next
    case True
    then show ?thesis
      by (auto simp: status_enabled [OF r] isMaintenanceActive_def window_iff Let_def
          truthy_def date_gt_def date_lt_def tmpl_def startBlock_def
          split: option.splits if_splits)
  qed
qed

theorem getMaintenanceStatus_reason_witness:
  \<open>absolutePath
      (fileHost (Inr ''{"enabled": true, ...}'')
        (Inr (configJson \<lparr>enabled = True, startTime = Some ''2025-01-20T02:00:00Z'',
                          endTime = Some ''2025-01-20T04:00:00Z'', message = None\<rparr>)))
      (defaultPath None)
     = Inr ''/app/public/maintenance.json''
   \<and> validateMaintenanceConfig
        (configJson \<lparr>enabled = True, startTime = Some ''2025-01-20T02:00:00Z'',
                     endTime = Some ''2025-01-20T04:00:00Z'', message = None\<rparr>)
   \<and> active (fst (getMaintenanceStatus
        (fileHost (Inr ''{"enabled": true, ...}'')
          (Inr (configJson \<lparr>enabled = True, startTime = Some ''2025-01-20T02:00:00Z'',
                            endTime = Some ''2025-01-20T04:00:00Z'', message = None\<rparr>)))
        sampleDates 1737342000000 1737342000000 None))
   \<and> reason (fst (getMaintenanceStatus
        (fileHost (Inr ''{"enabled": true, ...}'')
          (Inr (configJson \<lparr>enabled = True, startTime = Some ''2025-01-20T02:00:00Z'',
                            endTime = Some ''2025-01-20T04:00:00Z'', message = None\<rparr>)))
        sampleDates 1737342000000 1737342000000 None))
       = Some ''Maintenance active until 2025-01-20T04:00:00Z''
   \<and> reason (fst (getMaintenanceStatus
        (fileHost (Inr ''{"enabled": true, ...}'')
          (Inr (configJson \<lparr>enabled = True, startTime = Some ''2025-01-20T02:00:00Z'',
                            endTime = Some ''2025-01-20T04:00:00Z'', message = None\<rparr>)))
        sampleDates 1737334800000 1737334800000 None))
       = Some ''Maintenance hasn't started yet (starts at 2025-01-20T02:00:00Z)''
   \<and> reason (fst (getMaintenanceStatus
        (fileHost (Inr ''{"enabled": true, ...}'')
          (Inr (configJson \<lparr>enabled = True, startTime = Some ''2025-01-20T02:00:00Z'',
                            endTime = Some ''2025-01-20T04:00:00Z'', message = None\<rparr>)))
        sampleDates 1737349200000 1737349200000 None))
       = Some ''Maintenance has ended (ended at 2025-01-20T04:00:00Z)''\<close>
proof -
  let ?c = "\<lparr>enabled = True, startTime = Some ''2025-01-20T02:00:00Z'',
             endTime = Some ''2025-01-20T04:00:00Z'', message = None\<rparr>"
  let ?content = \<open>''{"enabled": true, ...}''\<close>
  let ?h = "fileHost (Inr ?content) (Inr (configJson ?c))"
  have s: "sampleDates ''2025-01-20T02:00:00Z'' = Some 1737338400000"
    and e: "sampleDates ''2025-01-20T04:00:00Z'' = Some 1737345600000"
    by (simp_all add: sampleDates_def)
  have ap: "absolutePath ?h (defaultPath None) = Inr ''/app/public/maintenance.json''"
    and rd: "readFileSync ?h ''/app/public/maintenance.json'' = Inr ?content"
    and js: "JSON_parse ?h ?content = Inr (configJson ?c)"
    by (simp_all add: fileHost_def absolutePath_def defaultPath_def)
  have ok: "validateMaintenanceConfig (configJson ?c)"
    by (rule validate_configJson)
  have act: "fst (isMaintenanceActive sampleDates 1737342000000 ?c)"
    by (simp add: isMaintenanceActive_def window_iff truthy_def date_gt_def date_lt_def s e)
  have mid: "active (fst (getMaintenanceStatus ?h sampleDates 1737342000000 1737342000000 None))
      \<and> reason (fst (getMaintenanceStatus ?h sampleDates 1737342000000 1737342000000 None))
          = Some ''Maintenance active until 2025-01-20T04:00:00Z''"
    using getMaintenanceStatus_reason [OF ap rd js ok, of sampleDates 1737342000000] act
    by (simp add: Let_def asConfig_configJson)
  have before: "reason (fst (getMaintenanceStatus ?h sampleDates 1737334800000 1737334800000 None))
      = Some ''Maintenance hasn't started yet (starts at 2025-01-20T02:00:00Z)''"
    using getMaintenanceStatus_reason [OF ap rd js ok, of sampleDates 1737334800000] s
    by (simp add: Let_def asConfig_configJson)
  have after: "reason (fst (getMaintenanceStatus ?h sampleDates 1737349200000 1737349200000 None))
      = Some ''Maintenance has ended (ended at 2025-01-20T04:00:00Z)''"
    using getMaintenanceStatus_reason [OF ap rd js ok, of sampleDates 1737349200000] s e
    by (simp add: Let_def asConfig_configJson startBlock_def)
  from ap ok mid before after show ?thesis by simp
qed


text \<open>
  The two readings of the clock matter: when the start instant passes between them, the
  window check has failed, neither reason of the failure applies any more, and the status
  returned is the active one.
\<close>

lemma status_between_clock_readings:
  "\<not> fst (isInMaintenanceWindow sampleDates 1737338399999
        \<lparr>enabled = True, startTime = Some ''2025-01-20T02:00:00Z'', endTime = None,
         message = None\<rparr>)
   \<and> fst (getMaintenanceStatus
        (fileHost (Inr ''{}'')
          (Inr (configJson \<lparr>enabled = True, startTime = Some ''2025-01-20T02:00:00Z'',
                            endTime = None, message = None\<rparr>)))
        sampleDates 1737338399999 1737338400000 None)
     = \<lparr>active = True,
        config = Some \<lparr>enabled = True, startTime = Some ''2025-01-20T02:00:00Z'',
                       endTime = None, message = None\<rparr>,
        reason = Some ''Maintenance active (no end time specified)''\<rparr>"
proof -
  let ?c = "\<lparr>enabled = True, startTime = Some ''2025-01-20T02:00:00Z'', endTime = None,
             message = None\<rparr>"
  let ?h = "fileHost (Inr ''{}'') (Inr (configJson ?c))"
  have s: "sampleDates ''2025-01-20T02:00:00Z'' = Some 1737338400000"
    by (simp add: sampleDates_def)
  have r: "readMaintenanceConfig ?h None None = (configJson ?c, [])"
    by (rule read_accepted [where path = "''/app/public/maintenance.json''" and content = "''{}''"])
       (simp_all add: fileHost_def absolutePath_def defaultPath_def validate_configJson)
  have w: "isInMaintenanceWindow sampleDates 1737338399999 ?c = (False, [])"
    by (simp add: isInMaintenanceWindow_def startBlock_def s)
  show ?thesis
    by (simp add: getMaintenanceStatus_def r w asConfig_configJson Let_def truthy_def
        date_gt_def date_lt_def s)
qed

section \<open>The countdown against its specification\<close>

lemma countdown_value:
  "s \<noteq> [] \<Longrightarrow> parseDate s = Some t \<Longrightarrow>
     calculateTimeRemaining parseDate now (Some s)
       = (let total = max 0 ((t - now) div 1000)
          in (Some \<lparr>days = total div 86400, hours = (total mod 86400) div 3600,
                    minutes = (total mod 3600) div 60, seconds = total mod 60,
                    totalSeconds = total\<rparr>, []))"
  by (simp add: calculateTimeRemaining_def Let_def)

lemma countdown_none_iff:
  "fst (calculateTimeRemaining parseDate now endTimeArg) = None \<longleftrightarrow>
     endTimeArg = None \<or> endTimeArg = Some []
     \<or> (\<exists>s. endTimeArg = Some s \<and> parseDate s = None)"
  by (auto simp: calculateTimeRemaining_def Let_def split: option.splits)

text \<open>
  Claim C6. \<open>calculateTimeRemaining\<close> returns none exactly when \<open>endTime\<close> is absent
  (missing, or the empty string) or does not parse; with a parser that rejects the empty
  string, as the engines do, exactly when it is missing or does not parse. Otherwise the
  breakdown has \<open>totalSeconds = max 0 ((end - now) div 1000)\<close>, \<open>days = totalSeconds
  div 86400\<close>, \<open>hours = (totalSeconds mod 86400) div 3600\<close>, \<open>minutes = (totalSeconds
  mod 3600) div 60\<close> and \<open>seconds = totalSeconds mod 60\<close>, and nothing is written to
  the console. An \<open>endTime\<close> 3661 seconds after \<open>now\<close> gives 0 days, 1 hour, 1 minute,
  1 second and 3661 in all; an \<open>endTime\<close> before \<open>now\<close> gives the all-zero breakdown.
\<close>

theorem calculateTimeRemaining_spec:
  "(fst (calculateTimeRemaining parseDate now endTimeArg) = None \<longleftrightarrow>
      endTimeArg = None \<or> endTimeArg = Some []
      \<or> (\<exists>s. endTimeArg = Some s \<and> parseDate s = None))
   \<and> (parseDate [] = None \<longrightarrow>
        (fst (calculateTimeRemaining parseDate now endTimeArg) = None \<longleftrightarrow>
           endTimeArg = None \<or> (\<exists>s. endTimeArg = Some s \<and> parseDate s = None)))
   \<and> (\<forall>s t. endTimeArg = Some s \<and> s \<noteq> [] \<and> parseDate s = Some t \<longrightarrow>
        (let total = max 0 ((t - now) div 1000)
         in calculateTimeRemaining parseDate now endTimeArg
              = (Some \<lparr>days = total div 86400, hours = (total mod 86400) div 3600,
                       minutes = (total mod 3600) div 60, seconds = total mod 60,
                       totalSeconds = total\<rparr>, [])))
   \<and> (\<forall>s. endTimeArg = Some s \<and> s \<noteq> [] \<and> parseDate s = Some (now + 3661 * 1000) \<longrightarrow>
        fst (calculateTimeRemaining parseDate now endTimeArg)
          = Some \<lparr>days = 0, hours = 1, minutes = 1, seconds = 1, totalSeconds = 3661\<rparr>)
   \<and> (\<forall>s t. endTimeArg = Some s \<and> s \<noteq> [] \<and> parseDate s = Some t \<and> t < now \<longrightarrow>
        fst (calculateTimeRemaining parseDate now endTimeArg)
          = Some \<lparr>days = 0, hours = 0, minutes = 0, seconds = 0, totalSeconds = 0\<rparr>)"
proof (intro conjI allI impI)
  show "fst (calculateTimeRemaining parseDate now endTimeArg) = None \<longleftrightarrow>
      endTimeArg = None \<or> endTimeArg = Some []
      \<or> (\<exists>s. endTimeArg = Some s \<and> parseDate s = None)"
    by (rule countdown_none_iff)
next
  assume "parseDate [] = None"
  then show "fst (calculateTimeRemaining parseDate now endTimeArg) = None \<longleftrightarrow>
           endTimeArg = None \<or> (\<exists>s. endTimeArg = Some s \<and> parseDate s = None)"
    by (auto simp: countdown_none_iff)
next
  fix s t assume "endTimeArg = Some s \<and> s \<noteq> [] \<and> parseDate s = Some t"
  then show "let total = max 0 ((t - now) div 1000)
         in calculateTimeRemaining parseDate now endTimeArg
              = (Some \<lparr>days = total div 86400, hours = (total mod 86400) div 3600,
                       minutes = (total mod 3600) div 60, seconds = total mod 60,
                       totalSeconds = total\<rparr>, [])"
    by (simp add: countdown_value)
next
  fix s assume "endTimeArg = Some s \<and> s \<noteq> [] \<and> parseDate s = Some (now + 3661 * 1000)"
  then show "fst (calculateTimeRemaining parseDate now endTimeArg)
          = Some \<lparr>days = 0, hours = 1, minutes = 1, seconds = 1, totalSeconds = 3661\<rparr>"
    by (simp add: countdown_value)
next
  fix s t assume a: "endTimeArg = Some s \<and> s \<noteq> [] \<and> parseDate s = Some t \<and> t < now"
  then have "(t - now) div 1000 < 0"
    by (simp add: div_neg_pos_less0)
  with a show "fst (calculateTimeRemaining parseDate now endTimeArg)
          = Some \<lparr>days = 0, hours = 0, minutes = 0, seconds = 0, totalSeconds = 0\<rparr>"
    by (simp add: countdown_value max_def)
qed

theorem calculateTimeRemaining_spec_witness:
  "sampleDates ''2025-01-20T04:00:00Z'' = Some (1737341939000 + 3661 * 1000)
   \<and> fst (calculateTimeRemaining sampleDates 1737341939000 (Some ''2025-01-20T04:00:00Z''))
       = Some \<lparr>days = 0, hours = 1, minutes = 1, seconds = 1, totalSeconds = 3661\<rparr>
   \<and> fst (calculateTimeRemaining sampleDates 1737349200000 (Some ''2025-01-20T04:00:00Z''))
       = Some \<lparr>days = 0, hours = 0, minutes = 0, seconds = 0, totalSeconds = 0\<rparr>
   \<and> fst (calculateTimeRemaining sampleDates 1737349200000 None) = None
   \<and> fst (calculateTimeRemaining sampleDates 1737349200000 (Some ''in an hour'')) = None
   \<and> fst (calculateTimeRemaining sampleDates 1736000000000 (Some ''2025-01-20T04:00:00Z''))
       = Some \<lparr>days = 15, hours = 13, minutes = 46, seconds = 40, totalSeconds = 1345600\<rparr>"
proof -
  have e: "sampleDates ''2025-01-20T04:00:00Z'' = Some 1737345600000"
    and x: "sampleDates ''in an hour'' = None" and y: "sampleDates [] = None"
    by (simp_all add: sampleDates_def)
  have "fst (calculateTimeRemaining sampleDates 1737341939000 (Some ''2025-01-20T04:00:00Z''))
       = Some \<lparr>days = 0, hours = 1, minutes = 1, seconds = 1, totalSeconds = 3661\<rparr>"
    using calculateTimeRemaining_spec
            [of sampleDates 1737341939000 "Some ''2025-01-20T04:00:00Z''"] e
    by simp
  moreover have "fst (calculateTimeRemaining sampleDates 1737349200000 (Some ''2025-01-20T04:00:00Z''))
       = Some \<lparr>days = 0, hours = 0, minutes = 0, seconds = 0, totalSeconds = 0\<rparr>"
    using calculateTimeRemaining_spec
            [of sampleDates 1737349200000 "Some ''2025-01-20T04:00:00Z''"] e
    by simp
  moreover have "fst (calculateTimeRemaining sampleDates 1737349200000 None) = None"
    using calculateTimeRemaining_spec [of sampleDates 1737349200000 None] by simp
  moreover have "fst (calculateTimeRemaining sampleDates 1737349200000 (Some ''in an hour'')) = None"
    using calculateTimeRemaining_spec [of sampleDates 1737349200000 "Some ''in an hour''"] x y
    by simp
  moreover have "fst (calculateTimeRemaining sampleDates 1736000000000 (Some ''2025-01-20T04:00:00Z''))
       = Some \<lparr>days = 15, hours = 13, minutes = 46, seconds = 40, totalSeconds = 1345600\<rparr>"
    using calculateTimeRemaining_spec
            [of sampleDates 1736000000000 "Some ''2025-01-20T04:00:00Z''"] e
    by (simp add: Let_def)
  ultimately show ?thesis using e by simp
qed

text \<open>
  The breakdown is the mixed-radix form of \<open>totalSeconds\<close>: the four parts recompose
  it, and each part below the days stays under its radix.
\<close>

lemma radix_split:
  fixes n :: int
  shows "n = (n div 86400) * 86400 + ((n mod 86400) div 3600) * 3600
             + ((n mod 3600) div 60) * 60 + n mod 60"
proof -
  have a: "(n mod 86400) mod 3600 = n mod 3600"
    by (rule mod_mod_cancel) simp
  have b: "(n mod 3600) mod 60 = n mod 60"
    by (rule mod_mod_cancel) simp
  have "n = (n div 86400) * 86400 + n mod 86400"
    by simp
  also have "n mod 86400 = ((n mod 86400) div 3600) * 3600 + (n mod 86400) mod 3600"
    by simp
  also have "(n mod 86400) mod 3600 = ((n mod 3600) div 60) * 60 + (n mod 3600) mod 60"
    unfolding a by simp
  finally show ?thesis
    unfolding b by simp
qed

lemma breakdown_recomposes:
  assumes "fst (calculateTimeRemaining parseDate now endTimeArg) = Some r"
  shows "0 \<le> totalSeconds r
    \<and> totalSeconds r = days r * 86400 + hours r * 3600 + minutes r * 60 + seconds r
    \<and> 0 \<le> days r \<and> 0 \<le> hours r \<and> hours r < 24 \<and> 0 \<le> minutes r \<and> minutes r < 60
    \<and> 0 \<le> seconds r \<and> seconds r < 60"
proof -
  from assms obtain s t where s: "endTimeArg = Some s" "s \<noteq> []" "parseDate s = Some t"
    by (auto simp: calculateTimeRemaining_def split: option.splits if_splits)
  define n where "n = max 0 ((t - now) div 1000)"
  have r: "r = \<lparr>days = n div 86400, hours = (n mod 86400) div 3600,
               minutes = (n mod 3600) div 60, seconds = n mod 60, totalSeconds = n\<rparr>"
    using assms s by (simp add: countdown_value n_def Let_def)
  have n: "0 \<le> n"
    by (simp add: n_def)
  have h: "(n mod 86400) div 3600 < 24" and m: "(n mod 3600) div 60 < 60"
    by (simp_all add: div_less_iff_less_mult)
  show ?thesis
    using n h m radix_split [of n] by (simp add: r pos_imp_zdiv_nonneg_iff)
qed

section \<open>Formatting\<close>

text \<open>\<open>show_nat\<close> writes the decimal digits of its argument.\<close>

lemma digit_of_nth: "d < 10 \<Longrightarrow> digit_of (''0123456789'' ! d) = d"
proof -
  assume "d < 10"
  then have "d \<in> {0, 1, 2, 3, 4, 5, 6, 7, 8, 9}"
    by auto
  then show ?thesis
    by (auto simp: digit_of_def)
qed

lemma read_nat_snoc: "read_nat (s @ [ch]) = 10 * read_nat s + digit_of ch"
  by (simp add: read_nat_def)

lemma read_show_nat: "read_nat (show_nat n) = n"
proof (induction n rule: show_nat.induct)
  case (1 n)
  show ?case
  proof (cases "n < 10")
    case True
    then show ?thesis
      by (subst show_nat.simps) (simp add: read_nat_def digit_of_nth)
  next
    case False
    with 1 have "read_nat (show_nat (n div 10)) = n div 10"
      by simp
    with False show ?thesis
      by (subst show_nat.simps) (simp add: read_nat_snoc digit_of_nth)
  qed
qed

text \<open>
  Claim C8. \<open>formatCountdown\<close> returns the empty string for an absent breakdown;
  otherwise days, hours and minutes (seconds dropped) when \<open>days > 0\<close>, else hours and
  minutes when \<open>hours > 0\<close>, else minutes and seconds when \<open>minutes > 0\<close>, else the
  seconds alone, each number in decimal followed by its unit letter and the parts
  separated by one space. 2 days, 3 hours, 0 minutes, 0 seconds is \<^verbatim>\<open>2d 3h 0m\<close>, and
  45 seconds is \<^verbatim>\<open>45s\<close>.
\<close>

theorem formatCountdown_spec:
  "formatCountdown (None :: 'a countdown_scheme option) = []
   \<and> (days t > 0 \<longrightarrow> formatCountdown (Some (t :: 'a countdown_scheme))
         = show_int (days t) @ ''d '' @ show_int (hours t) @ ''h '' @ show_int (minutes t) @ ''m'')
   \<and> (\<not> days t > 0 \<and> hours t > 0 \<longrightarrow> formatCountdown (Some t)
         = show_int (hours t) @ ''h '' @ show_int (minutes t) @ ''m'')
   \<and> (\<not> days t > 0 \<and> \<not> hours t > 0 \<and> minutes t > 0 \<longrightarrow> formatCountdown (Some t)
         = show_int (minutes t) @ ''m '' @ show_int (seconds t) @ ''s'')
   \<and> (\<not> days t > 0 \<and> \<not> hours t > 0 \<and> \<not> minutes t > 0 \<longrightarrow> formatCountdown (Some t)
         = show_int (seconds t) @ ''s'')
   \<and> formatCountdown (Some \<lparr>days = 2, hours = 3, minutes = 0, seconds = 0\<rparr>) = ''2d 3h 0m''
   \<and> formatCountdown (Some \<lparr>days = 0, hours = 0, minutes = 0, seconds = 45\<rparr>) = ''45s''"
  by (simp add: formatCountdown_def show_int_def show_nat.simps)

theorem formatCountdown_spec_witness:
  "days \<lparr>days = 2, hours = 3, minutes = 0, seconds = 0\<rparr> > 0
   \<and> formatCountdown (Some \<lparr>days = 2, hours = 3, minutes = 0, seconds = 0\<rparr>) = ''2d 3h 0m''
   \<and> formatCountdown (Some \<lparr>days = 0, hours = 2, minutes = 30, seconds = 59\<rparr>) = ''2h 30m''
   \<and> formatCountdown (Some \<lparr>days = 0, hours = 0, minutes = 45, seconds = 30\<rparr>) = ''45m 30s''
   \<and> formatCountdown (Some \<lparr>days = 0, hours = 0, minutes = 0, seconds = 45, totalSeconds = 45\<rparr>)
       = ''45s''
   \<and> formatCountdown (Some \<lparr>days = 12, hours = 0, minutes = 7, seconds = 9, totalSeconds = 1037229\<rparr>)
       = ''12d 0h 7m''"
proof -
  have n: "show_int 0 = ''0''" "show_int 2 = ''2''" "show_int 3 = ''3''" "show_int 7 = ''7''"
    "show_int 12 = ''12''" "show_int 30 = ''30''" "show_int 45 = ''45''"
    by (simp_all add: show_int_def show_nat.simps)
  have "formatCountdown (Some \<lparr>days = 2, hours = 3, minutes = 0, seconds = 0\<rparr>) = ''2d 3h 0m''"
    using formatCountdown_spec [of "\<lparr>days = 2, hours = 3, minutes = 0, seconds = 0\<rparr>"] n by simp
  moreover have "formatCountdown (Some \<lparr>days = 0, hours = 2, minutes = 30, seconds = 59\<rparr>) = ''2h 30m''"
    using formatCountdown_spec [of "\<lparr>days = 0, hours = 2, minutes = 30, seconds = 59\<rparr>"] n by simp
  moreover have "formatCountdown (Some \<lparr>days = 0, hours = 0, minutes = 45, seconds = 30\<rparr>) = ''45m 30s''"
    using formatCountdown_spec [of "\<lparr>days = 0, hours = 0, minutes = 45, seconds = 30\<rparr>"] n by simp
  moreover have "formatCountdown (Some \<lparr>days = 0, hours = 0, minutes = 0, seconds = 45, totalSeconds = 45\<rparr>) = ''45s''"
    using formatCountdown_spec [of "\<lparr>days = 0, hours = 0, minutes = 0, seconds = 45, totalSeconds = 45\<rparr>"] n by simp
  moreover have "formatCountdown (Some \<lparr>days = 12, hours = 0, minutes = 7, seconds = 9, totalSeconds = 1037229\<rparr>) = ''12d 0h 7m''"
    using formatCountdown_spec [of "\<lparr>days = 12, hours = 0, minutes = 7, seconds = 9, totalSeconds = 1037229\<rparr>"] n by simp
  ultimately show ?thesis by simp
qed

end
